theory Spec2Isabelle
  imports Complex_Main "HOL-Library.Char_ord" "HOL-Library.List_Lexorder" "HOL-Library.Multiset"
begin

section \<open>Python values used by the two services\<close>

text \<open>
  The exceptions that can leave the modelled functions. Only classes derived from
  Python's \<open>Exception\<close> are modelled; \<open>OtherException\<close> stands for any such class
  that is not named here.
\<close>

datatype py_exception =
    StopIteration
  | IndexError
  | ValueError
  | SocketTimeout
  | GaiError
  | OtherException string

text \<open>
  Timestamps are the values of \<open>time.time()\<close>: seconds as a Python float. They are
  modelled as real numbers, the clock reading being an argument of every function that
  reads the clock. \<open>int(x)\<close> on a float truncates towards zero.
\<close>

definition py_int :: "real \<Rightarrow> int" where
  "py_int x = (if 0 \<le> x then \<lfloor>x\<rfloor> else \<lceil>x\<rceil>)"

text \<open>\<open>str(n)\<close> for an integer, as the f-strings of the messages render it.\<close>

fun str_nat :: "nat \<Rightarrow> string" where
  "str_nat n =
     (if n < 10 then [''0123456789'' ! n]
      else str_nat (n div 10) @ [''0123456789'' ! (n mod 10)])"

declare str_nat.simps [simp del]

definition str_int :: "int \<Rightarrow> string" where
  "str_int i = (if i < 0 then CHR ''-'' # str_nat (nat (- i)) else str_nat (nat i))"

text \<open>
  \<open>next(x for x in xs if P x)\<close>: the first element that satisfies \<open>P\<close>, and
  \<open>StopIteration\<close> when the generator is exhausted.
\<close>

fun next_where :: "('a \<Rightarrow> bool) \<Rightarrow> 'a list \<Rightarrow> py_exception + 'a" where
  "next_where P [] = Inl StopIteration"
| "next_where P (x # xs) = (if P x then Inr x else next_where P xs)"

section \<open>services/rate\_limiter.py\<close>

text \<open>
  \<open>RateLimiter\<close>: the two limits, the set of admin ids and the dictionary
  \<open>user_queries\<close> from user id to the deque of that user's timestamps (oldest first).
\<close>

record rate_limiter =
  max_per_minute :: int
  max_per_hour :: int
  admin_user_ids :: "int set"
  user_queries :: "int \<rightharpoonup> real list"

text \<open>\<open>RateLimiter.__init__\<close>; \<open>admin_user_ids or []\<close> is the list given, or none.\<close>

definition init_rate_limiter :: "int \<Rightarrow> int \<Rightarrow> int list \<Rightarrow> rate_limiter" where
  "init_rate_limiter per_minute per_hour admins =
     \<lparr>max_per_minute = per_minute, max_per_hour = per_hour,
      admin_user_ids = set admins, user_queries = Map.empty\<rparr>"

definition is_admin :: "rate_limiter \<Rightarrow> int \<Rightarrow> bool" where
  "is_admin rl user_id = (user_id \<in> admin_user_ids rl)"

text \<open>
  \<open>user_queries\<close> is a \<open>defaultdict\<close> of deques: reading a missing key yields the
  empty deque (and \<open>self.user_queries[user_id]\<close> stores it under the key).
\<close>

definition timestamps_of :: "rate_limiter \<Rightarrow> int \<Rightarrow> real list" where
  "timestamps_of rl user_id = (case user_queries rl user_id of None \<Rightarrow> [] | Some ts \<Rightarrow> ts)"

text \<open>
  The cleaning loop
  \<^verbatim>\<open>while user_timestamps and current_time - user_timestamps[0] > 3600: popleft()\<close>.
\<close>

fun purge_old :: "real \<Rightarrow> real list \<Rightarrow> real list" where
  "purge_old current_time [] = []"
| "purge_old current_time (t # ts) =
     (if current_time - t > 3600 then purge_old current_time ts else t # ts)"

text \<open>
  What \<open>check_rate_limit\<close> decides, before the decision is rendered as the pair
  \<open>(allowed, message)\<close>: the denial constructors carry the local variables that the
  message is built from (\<open>wait_seconds\<close>, \<open>queries_last_minute\<close>,
  \<open>queries_last_hour\<close>).
\<close>

datatype decision =
    Admit
  | DenyMinute int int int
  | DenyHour int int

text \<open>
  The body of \<open>check_rate_limit\<close> up to the construction of the message. The result is
  the limiter after the call (the deque of the user is cleaned in place before anything
  can raise) and either the exception that leaves the method or its decision.
\<close>

definition rate_limit_decision ::
  "rate_limiter \<Rightarrow> int \<Rightarrow> real \<Rightarrow> rate_limiter \<times> (py_exception + decision)" where
  "rate_limit_decision rl user_id current_time =
     (if is_admin rl user_id then (rl, Inr Admit)
      else
        let user_timestamps = purge_old current_time (timestamps_of rl user_id);
            rl' = rl\<lparr>user_queries := (user_queries rl)(user_id \<mapsto> user_timestamps)\<rparr>;
            minute_ago = current_time - 60;
            queries_last_minute = int (length (filter (\<lambda>ts. ts \<ge> minute_ago) user_timestamps));
            queries_last_hour = int (length user_timestamps)
        in if queries_last_minute \<ge> max_per_minute rl then
             (case next_where (\<lambda>ts. ts \<ge> minute_ago) (rev user_timestamps) of
                Inl e \<Rightarrow> (rl', Inl e)
              | Inr oldest_in_minute \<Rightarrow>
                  (rl', Inr (DenyMinute (py_int (60 - (current_time - oldest_in_minute)))
                                         queries_last_minute queries_last_hour)))
           else if queries_last_hour \<ge> max_per_hour rl then
             (case user_timestamps of
                [] \<Rightarrow> (rl', Inl IndexError)
              | oldest_timestamp # _ \<Rightarrow>
                  (rl', Inr (DenyHour (py_int (3600 - (current_time - oldest_timestamp)))
                                       queries_last_hour)))
           else (rl', Inr Admit))"

text \<open>
  The first characters of both messages: U+23F1 U+FE0F (a stopwatch), as UTF-8 bytes.
\<close>

definition stopwatch :: string where
  "stopwatch = [CHR 0xE2, CHR 0x8F, CHR 0xB1, CHR 0xEF, CHR 0xB8, CHR 0x8F]"

definition newline :: string where
  "newline = [CHR 0x0A]"

text \<open>
  The two messages, as the f-strings build them from the limit, the wait and the counts.
\<close>

definition minute_message :: "int \<Rightarrow> int \<Rightarrow> int \<Rightarrow> int \<Rightarrow> string" where
  "minute_message limit wait_seconds queries_last_minute queries_last_hour =
     stopwatch @ '' Rate limit: '' @ str_int limit @ '' queries/minute exceeded.'' @ newline
       @ ''Please wait '' @ str_int wait_seconds @ '' seconds.'' @ newline @ newline
       @ ''Your usage: '' @ str_int queries_last_minute @ '' queries in last minute, ''
       @ str_int queries_last_hour @ '' queries in last hour.''"

definition hour_message :: "int \<Rightarrow> int \<Rightarrow> int \<Rightarrow> string" where
  "hour_message limit wait_minutes queries_last_hour =
     stopwatch @ '' Rate limit: '' @ str_int limit @ '' queries/hour exceeded.'' @ newline
       @ ''Please wait '' @ str_int wait_minutes @ '' minutes.'' @ newline @ newline
       @ ''Your usage: '' @ str_int queries_last_hour @ '' queries in last hour.''"

text \<open>
  The pair that \<open>check_rate_limit\<close> returns for each decision; the hour branch computes
  \<open>wait_minutes = wait_seconds // 60\<close> and states only that.
\<close>

fun render :: "rate_limiter \<Rightarrow> decision \<Rightarrow> bool \<times> string" where
  "render rl Admit = (True, '''')"
| "render rl (DenyMinute wait_seconds queries_last_minute queries_last_hour) =
     (False, minute_message (max_per_minute rl) wait_seconds queries_last_minute queries_last_hour)"
| "render rl (DenyHour wait_seconds queries_last_hour) =
     (let wait_minutes = wait_seconds div 60 in
      (False, hour_message (max_per_hour rl) wait_minutes queries_last_hour))"

text \<open>\<open>RateLimiter.check_rate_limit\<close>, with the clock reading as an argument.\<close>

definition check_rate_limit ::
  "rate_limiter \<Rightarrow> int \<Rightarrow> real \<Rightarrow> rate_limiter \<times> (py_exception + bool \<times> string)" where
  "check_rate_limit rl user_id current_time =
     (case rate_limit_decision rl user_id current_time of
        (rl', Inl e) \<Rightarrow> (rl', Inl e)
      | (rl', Inr d) \<Rightarrow> (rl', Inr (render rl d)))"

text \<open>
  \<open>RateLimiter.record_query\<close>: the admin test has an empty body, the append happens for
  every user.
\<close>

definition record_query :: "rate_limiter \<Rightarrow> int \<Rightarrow> real \<Rightarrow> rate_limiter" where
  "record_query rl user_id current_time =
     rl\<lparr>user_queries := (user_queries rl)(user_id \<mapsto> timestamps_of rl user_id @ [current_time])\<rparr>"

section \<open>services/ip\_resolver.py\<close>

text \<open>
  One entry of the list that \<open>socket.getaddrinfo\<close> returns: the 5-tuple
  \<open>(family, type, proto, canonname, sockaddr)\<close>, whose \<open>sockaddr\<close> is
  \<open>(address, port)\<close> for IPv4 and \<open>(address, port, flowinfo, scope_id)\<close> for IPv6.
\<close>

datatype address_family = AF_INET | AF_INET6

datatype sockaddr = SockAddr4 string int | SockAddr6 string int int int

type_synonym addr_info = "address_family \<times> int \<times> int \<times> string \<times> sockaddr"

text \<open>\<open>info[4][0]\<close>: the address string of an entry.\<close>

fun sockaddr_address :: "sockaddr \<Rightarrow> string" where
  "sockaddr_address (SockAddr4 address port) = address"
| "sockaddr_address (SockAddr6 address port flowinfo scope_id) = address"

definition info_address :: "addr_info \<Rightarrow> string" where
  "info_address info = sockaddr_address (snd (snd (snd (snd info))))"

text \<open>
  The name service is an argument of the model: \<open>getaddrinfo host\<close> is what
  \<open>socket.getaddrinfo(host, None, family=AF_UNSPEC, type=SOCK_STREAM)\<close> does, either
  raising (a timeout, a \<open>gaierror\<close>, anything else) or returning its list of entries.
\<close>

type_synonym name_service = "string \<Rightarrow> py_exception + addr_info list"

text \<open>\<open>socket.setdefaulttimeout\<close> rejects a negative number with \<open>ValueError\<close>.\<close>

definition setdefaulttimeout :: "int \<Rightarrow> py_exception + unit" where
  "setdefaulttimeout seconds = (if seconds < 0 then Inl ValueError else Inr ())"

text \<open>
  The body of the \<open>try\<close> block of \<open>resolve_fqdn\<close>. \<open>sorted(list(set(xs)))\<close> is the
  sorted list of the distinct elements of \<open>xs\<close>, whatever order the set is iterated in;
  strings are compared character by character (the addresses are ASCII).
\<close>

definition resolve_fqdn_try :: "name_service \<Rightarrow> string \<Rightarrow> int \<Rightarrow> py_exception + string list" where
  "resolve_fqdn_try getaddrinfo host seconds =
     (case setdefaulttimeout seconds of
        Inl e \<Rightarrow> Inl e
      | Inr _ \<Rightarrow>
          (case getaddrinfo host of
             Inl e \<Rightarrow> Inl e
           | Inr addr_info \<Rightarrow> Inr (sort (remdups (map info_address addr_info)))))"

text \<open>
  \<open>resolve_fqdn\<close>: the \<open>try\<close> block with its three handlers, in the order of the
  source. The result is a sum so that it can be stated that nothing is raised.
\<close>

definition resolve_fqdn :: "name_service \<Rightarrow> string \<Rightarrow> int \<Rightarrow> py_exception + string list" where
  "resolve_fqdn getaddrinfo host seconds =
     (case resolve_fqdn_try getaddrinfo host seconds of
        Inr found \<Rightarrow> Inr found
      | Inl SocketTimeout \<Rightarrow> Inr []
      | Inl GaiError \<Rightarrow> Inr []
      | Inl _ \<Rightarrow> Inr [])"

text \<open>
  The collecting loop of \<open>resolve_multiple_fqdns\<close>: one completed future, paired with
  its host name as in \<open>future_to_fqdn\<close>, is written into \<open>results\<close>; a future whose
  worker raised stores the empty list.
\<close>

definition collect ::
  "(string \<rightharpoonup> string list) \<Rightarrow> (py_exception + string list) \<times> string \<Rightarrow> (string \<rightharpoonup> string list)" where
  "collect results completed =
     (case completed of
        (Inr found, host) \<Rightarrow> results(host \<mapsto> found)
      | (Inl _, host) \<Rightarrow> results(host \<mapsto> []))"

text \<open>
  \<open>resolve_multiple_fqdns\<close>. \<open>ThreadPoolExecutor\<close> raises \<open>ValueError\<close> unless
  \<open>max_workers\<close> is positive. One future is submitted per element of the list, in list
  order; \<open>as_completed\<close> yields them in an order that the scheduler chooses, given here as
  the list \<open>completion\<close> of positions in the submission order.
\<close>

definition completion_order :: "nat \<Rightarrow> nat list \<Rightarrow> bool" where
  "completion_order n completion = (mset completion = mset [0..<n])"

definition resolve_multiple_fqdns ::
  "name_service \<Rightarrow> nat list \<Rightarrow> string list \<Rightarrow> int \<Rightarrow> int
     \<Rightarrow> py_exception + (string \<rightharpoonup> string list)" where
  "resolve_multiple_fqdns getaddrinfo completion hosts max_workers seconds =
     (if max_workers \<le> 0 then Inl ValueError
      else
        let future_to_fqdn = map (\<lambda>host. (resolve_fqdn getaddrinfo host seconds, host)) hosts
        in Inr (foldl collect Map.empty (map (\<lambda>i. future_to_fqdn ! i) completion)))"

text \<open>The dictionaries that the two report functions return.\<close>

record fqdn_entry =
  fqdn :: string
  ips :: "string list"
  resolved :: bool

record report =
  operator :: string
  mnc_mcc_pairs :: "(int \<times> int) list"
  total_fqdns :: int
  resolution_time_ms :: int

record infrastructure = report +
  active_fqdns :: "fqdn_entry list"

record infrastructure_all = report +
  active_count :: int
  inactive_count :: int
  all_fqdns :: "fqdn_entry list"

text \<open>\<open>resolution_results.get(fqdn, [])\<close>.\<close>

definition get_ips :: "(string \<rightharpoonup> string list) \<Rightarrow> string \<Rightarrow> string list" where
  "get_ips resolution_results host =
     (case resolution_results host of None \<Rightarrow> [] | Some found \<Rightarrow> found)"

text \<open>
  The loop of \<open>get_operator_infrastructure\<close> over \<open>sorted(fqdns)\<close>: an entry is appended
  only when the list of addresses is not empty.
\<close>

fun active_entries :: "(string \<rightharpoonup> string list) \<Rightarrow> string list \<Rightarrow> fqdn_entry list" where
  "active_entries resolution_results [] = []"
| "active_entries resolution_results (host # hosts) =
     (let found = get_ips resolution_results host in
      if found \<noteq> []
      then \<lparr>fqdn = host, ips = found, resolved = True\<rparr> # active_entries resolution_results hosts
      else active_entries resolution_results hosts)"

text \<open>
  \<open>get_operator_infrastructure\<close>; \<open>start_time\<close> and \<open>end_time\<close> are the two clock
  readings. An exception of \<open>resolve_multiple_fqdns\<close> is not caught.
\<close>

definition get_operator_infrastructure ::
  "name_service \<Rightarrow> nat list \<Rightarrow> real \<Rightarrow> real \<Rightarrow> string \<Rightarrow> string list \<Rightarrow> (int \<times> int) list
     \<Rightarrow> int \<Rightarrow> int \<Rightarrow> py_exception + infrastructure" where
  "get_operator_infrastructure getaddrinfo completion start_time end_time
       operator_name hosts pairs max_workers seconds =
     (case resolve_multiple_fqdns getaddrinfo completion hosts max_workers seconds of
        Inl e \<Rightarrow> Inl e
      | Inr resolution_results \<Rightarrow>
          Inr \<lparr>operator = operator_name,
               mnc_mcc_pairs = pairs,
               total_fqdns = int (length hosts),
               resolution_time_ms = py_int ((end_time - start_time) * 1000),
               active_fqdns = active_entries resolution_results (sort hosts)\<rparr>)"

text \<open>The loop of \<open>get_operator_infrastructure_with_all_fqdns\<close>: every name gets an entry.\<close>

definition all_entries :: "(string \<rightharpoonup> string list) \<Rightarrow> string list \<Rightarrow> fqdn_entry list" where
  "all_entries resolution_results hosts =
     map (\<lambda>host. let found = get_ips resolution_results host
                  in \<lparr>fqdn = host, ips = found, resolved = (length found > 0)\<rparr>) hosts"

definition get_operator_infrastructure_with_all_fqdns ::
  "name_service \<Rightarrow> nat list \<Rightarrow> real \<Rightarrow> real \<Rightarrow> string \<Rightarrow> string list \<Rightarrow> (int \<times> int) list
     \<Rightarrow> int \<Rightarrow> int \<Rightarrow> py_exception + infrastructure_all" where
  "get_operator_infrastructure_with_all_fqdns getaddrinfo completion start_time end_time
       operator_name hosts pairs max_workers seconds =
     (case resolve_multiple_fqdns getaddrinfo completion hosts max_workers seconds of
        Inl e \<Rightarrow> Inl e
      | Inr resolution_results \<Rightarrow>
          (let entries = all_entries resolution_results (sort hosts);
               active = int (length (filter resolved entries))
           in Inr \<lparr>operator = operator_name,
                    mnc_mcc_pairs = pairs,
                    total_fqdns = int (length hosts),
                    resolution_time_ms = py_int ((end_time - start_time) * 1000),
                    active_count = active,
                    inactive_count = int (length hosts) - active,
                    all_fqdns = entries\<rparr>))"

section \<open>Example states\<close>

text \<open>
  The limiter after \<open>record_query(7)\<close> at time 0 and at time 10, for given limits and
  no admins.
\<close>

definition two_requests :: "int \<Rightarrow> int \<Rightarrow> rate_limiter" where
  "two_requests per_minute per_hour =
     record_query (record_query (init_rate_limiter per_minute per_hour []) 7 0) 7 10"

text \<open>
  The limiter after \<open>record_query(7)\<close> at each of the given times, in order.
\<close>

definition recorded :: "int \<Rightarrow> int \<Rightarrow> real list \<Rightarrow> rate_limiter" where
  "recorded per_minute per_hour stamps =
     foldl (\<lambda>rl t. record_query rl 7 t) (init_rate_limiter per_minute per_hour []) stamps"

text \<open>
  A name service with one name that resolves (twice to the same IPv4 address and once to
  an IPv6 address), one whose lookup times out, one whose lookup fails with another
  error, and \<open>gaierror\<close> for every other name.
\<close>

definition example_service :: name_service where
  "example_service host =
     (if host = ''a.example'' then
        Inr [(AF_INET, 1, 6, '''', SockAddr4 ''10.0.0.1'' 0),
             (AF_INET, 1, 6, '''', SockAddr4 ''10.0.0.1'' 0),
             (AF_INET6, 1, 6, '''', SockAddr6 ''::1'' 0 0 0)]
      else if host = ''t.example'' then Inl SocketTimeout
      else if host = ''x.example'' then Inl (OtherException ''unreachable'')
      else Inl GaiError)"

definition example_hosts :: "string list" where
  "example_hosts = [''t.example'', ''a.example'', ''nx.example'']"

section \<open>Evaluation rules\<close>

lemmas limiter_eval =
  init_rate_limiter_def record_query_def rate_limit_decision_def check_rate_limit_def
  timestamps_of_def is_admin_def py_int_def Let_def

lemmas message_eval =
  minute_message_def hour_message_def str_int_def str_nat.simps stopwatch_def newline_def

section \<open>Properties of the rate limiter\<close>

lemma py_int_nonneg: "0 \<le> x \<Longrightarrow> py_int x = \<lfloor>x\<rfloor>"
  by (simp add: py_int_def)

lemma purge_old_hd: "purge_old now ts = t # rest \<Longrightarrow> now - t \<le> 3600"
  by (induction ts) (auto split: if_splits)

lemma purge_old_split: "ts = takeWhile (\<lambda>t. now - t > 3600) ts @ purge_old now ts"
  by (induction ts) auto

lemma next_where_sat: "next_where P xs = Inr x \<Longrightarrow> P x \<and> x \<in> set xs"
  by (induction xs) (auto split: if_splits)

lemma next_where_Inl: "next_where P xs = Inl e \<Longrightarrow> e = StopIteration \<and> (\<forall>x\<in>set xs. \<not> P x)"
  by (induction xs) (auto split: if_splits)

lemma timestamps_of_update [simp]:
  "timestamps_of (rl\<lparr>user_queries := (user_queries rl)(u \<mapsto> ts)\<rparr>) v
     = (if v = u then ts else timestamps_of rl v)"
  by (simp add: timestamps_of_def)

lemma decision_admin:
  "user_id \<in> admin_user_ids rl \<Longrightarrow> rate_limit_decision rl user_id now = (rl, Inr Admit)"
  by (simp add: rate_limit_decision_def is_admin_def)

lemma decision_state:
  "user_id \<notin> admin_user_ids rl \<Longrightarrow>
   fst (rate_limit_decision rl user_id now) =
     rl\<lparr>user_queries := (user_queries rl)(user_id \<mapsto> purge_old now (timestamps_of rl user_id))\<rparr>"
  by (simp add: rate_limit_decision_def is_admin_def Let_def split: sum.splits list.splits)

lemma decision_minute:
  assumes "user_id \<notin> admin_user_ids rl"
    and "snd (rate_limit_decision rl user_id now) = Inr (DenyMinute w qm qh)"
  shows "\<exists>t. next_where (\<lambda>ts. ts \<ge> now - 60) (rev (purge_old now (timestamps_of rl user_id))) = Inr t
           \<and> w = py_int (60 - (now - t))"
  using assms
  by (auto simp add: rate_limit_decision_def is_admin_def Let_def
           split: sum.splits list.splits if_splits)

lemma decision_hour:
  assumes "user_id \<notin> admin_user_ids rl"
    and "snd (rate_limit_decision rl user_id now) = Inr (DenyHour w qh)"
  shows "\<exists>t rest. purge_old now (timestamps_of rl user_id) = t # rest
           \<and> w = py_int (3600 - (now - t))"
  using assms
  by (auto simp add: rate_limit_decision_def is_admin_def Let_def
           split: sum.splits list.splits if_splits)

lemma record_query_admins: "admin_user_ids (record_query rl u t) = admin_user_ids rl"
  by (simp add: record_query_def)

lemma recorded_admins:
  "admin_user_ids (foldl (\<lambda>r t. record_query r u t) rl history) = admin_user_ids rl"
  by (induction history arbitrary: rl) (simp_all add: record_query_admins)

text \<open>
  C1. The claim: a non-admin caller with at least \<open>max_per_minute\<close> retained timestamps
  in the last 60 seconds is denied with the wait \<open>60 - (now - t)\<close> rounded down, \<open>t\<close>
  being the oldest retained timestamp of the last minute; with a limit of 2 and requests
  admitted and recorded at 0 and 10, the check at 20 reports 40 seconds.
  What the method computes at that input: both earlier checks admit, the check at 20
  denies, and \<open>oldest_in_minute\<close> is taken from the reversed deque, whose first
  qualifying element is the timestamp 10, so that the wait is 50 and not 40.
\<close>

theorem minute_boundary_wait:
  "snd (rate_limit_decision (init_rate_limiter 2 50 []) 7 0) = Inr Admit \<and>
   snd (rate_limit_decision (record_query (init_rate_limiter 2 50 []) 7 0) 7 10) = Inr Admit \<and>
   snd (rate_limit_decision (record_query (record_query (init_rate_limiter 2 50 []) 7 0) 7 10) 7 20)
     = Inr (DenyMinute 50 2 2)"
  by (simp add: limiter_eval)

text \<open>
  C2, as amended. A caller who is not an admin and not over the minute limit, whose
  retained sequence is not empty and has at least \<open>max_per_hour\<close> entries, is denied;
  \<open>wait_seconds\<close> is \<open>3600 - (now - oldest retained timestamp)\<close> rounded down to whole
  seconds.
\<close>

theorem hour_limit_denial:
  assumes "user_id \<notin> admin_user_ids rl"
    and "retained = purge_old current_time (timestamps_of rl user_id)"
    and "int (length (filter (\<lambda>ts. ts \<ge> current_time - 60) retained)) < max_per_minute rl"
    and "max_per_hour rl \<le> int (length retained)"
    and "retained \<noteq> []"
  shows "snd (rate_limit_decision rl user_id current_time)
           = Inr (DenyHour \<lfloor>3600 - (current_time - hd retained)\<rfloor> (int (length retained)))"
proof -
  from assms(5) obtain t rest where r: "retained = t # rest"
    by (cases retained) auto
  have p: "purge_old current_time (timestamps_of rl user_id) = t # rest"
    using assms(2) r by simp
  then have "current_time - t \<le> 3600"
    by (rule purge_old_hd)
  then have w: "py_int (3600 - (current_time - t)) = \<lfloor>3600 - (current_time - t)\<rfloor>"
    by (simp add: py_int_nonneg)
  have m: "\<not> max_per_minute rl \<le> int (length (filter (\<lambda>ts. ts \<ge> current_time - 60) (t # rest)))"
    using assms(3) r by simp
  have h: "max_per_hour rl \<le> int (length (t # rest))"
    using assms(4) r by simp
  show ?thesis
    unfolding rate_limit_decision_def is_admin_def Let_def p r
    using assms(1) m h w by simp
qed

text \<open>
  The hour boundary of the specification: a limit of 2 per hour, requests recorded at 0
  and 100, a check at 200 is denied with a wait of 3400 seconds.
\<close>

theorem hour_limit_denial_witness:
  "snd (rate_limit_decision (record_query (record_query (init_rate_limiter 100 2 []) 7 0) 7 100) 7 200)
     = Inr (DenyHour 3400 2)"
proof -
  let ?rl = "record_query (record_query (init_rate_limiter 100 2 []) 7 0) 7 100"
  have ts: "timestamps_of ?rl 7 = [0, 100]"
    by (simp add: init_rate_limiter_def record_query_def timestamps_of_def)
  have a: "7 \<notin> admin_user_ids ?rl"
    by (simp add: init_rate_limiter_def record_query_def)
  have r: "[0, 100] = purge_old 200 (timestamps_of ?rl 7)"
    by (simp add: ts)
  have m: "int (length (filter (\<lambda>ts. ts \<ge> 200 - 60) [0, 100::real])) < max_per_minute ?rl"
    by (simp add: init_rate_limiter_def record_query_def)
  have h: "max_per_hour ?rl \<le> int (length [0, 100::real])"
    by (simp add: init_rate_limiter_def record_query_def)
  have n: "[0, 100::real] \<noteq> []"
    by simp
  show ?thesis
    using hour_limit_denial [OF a r m h n] by simp
qed

text \<open>
  C2 as stated has the wait equal to \<open>3600 - (now - oldest)\<close>. With the same two
  requests and a check at 200.5 that number is 3399.5, and the method computes 3399.
\<close>

theorem hour_wait_counterexample:
  "snd (rate_limit_decision (record_query (record_query (init_rate_limiter 100 2 []) 7 0) 7 100)
          7 (401 / 2))
     = Inr (DenyHour 3399 2) \<and>
   real_of_int 3399 \<noteq> 3600 - (401 / 2 - 0)"
  by (simp add: limiter_eval)

text \<open>
  C9. A caller in the admin set is admitted by every check, whatever has been recorded
  for it before: the check returns \<open>(True, "")\<close>.
\<close>

theorem admin_bypass:
  assumes "user_id \<in> admin_user_ids rl"
  shows "snd (check_rate_limit (foldl (\<lambda>r t. record_query r user_id t) rl history)
                user_id current_time)
           = Inr (True, '''')"
  using assms
  by (simp add: check_rate_limit_def decision_admin recorded_admins)

theorem admin_bypass_witness:
  "(7::int) \<in> admin_user_ids (init_rate_limiter 1 1 [7]) \<and>
   snd (check_rate_limit (foldl (\<lambda>r t. record_query r 7 t) (init_rate_limiter 1 1 [7]) [0, 1, 2]) 7 3)
     = Inr (True, '''')"
  using admin_bypass [of 7 "init_rate_limiter 1 1 [7]" "[0, 1, 2]" 3]
  by (simp add: init_rate_limiter_def)

section \<open>What a check and a record change\<close>

lemma purge_old_again:
  "now0 \<le> now \<Longrightarrow> purge_old now (purge_old now0 ts) = purge_old now ts"
  by (induction ts) auto

lemma decision_after_check:
  assumes "now0 \<le> now"
  shows "rate_limit_decision (fst (rate_limit_decision rl user_id now0)) user_id now
           = rate_limit_decision rl user_id now"
proof (cases "user_id \<in> admin_user_ids rl")
  case True
  then show ?thesis by (simp add: decision_admin)
next
  case False
  then show ?thesis
    unfolding decision_state [OF False]
    by (simp add: rate_limit_decision_def is_admin_def Let_def purge_old_again [OF assms])
qed

lemma check_fst: "fst (check_rate_limit rl user_id now) = fst (rate_limit_decision rl user_id now)"
  by (cases "rate_limit_decision rl user_id now")
     (auto simp: check_rate_limit_def split: sum.splits)

lemma check_limits:
  "max_per_minute (fst (rate_limit_decision rl user_id now)) = max_per_minute rl"
  "max_per_hour (fst (rate_limit_decision rl user_id now)) = max_per_hour rl"
  by (cases "user_id \<in> admin_user_ids rl"; simp add: decision_admin decision_state)+

lemma render_limits:
  "max_per_minute a = max_per_minute b \<Longrightarrow> max_per_hour a = max_per_hour b
     \<Longrightarrow> render a d = render b d"
  by (cases d) simp_all

lemma check_after_check:
  assumes "now0 \<le> now"
  shows "check_rate_limit (fst (check_rate_limit rl user_id now0)) user_id now
           = check_rate_limit rl user_id now"
proof -
  let ?rl0 = "fst (rate_limit_decision rl user_id now0)"
  have "render ?rl0 d = render rl d" for d
    by (rule render_limits) (simp_all add: check_limits)
  then have "check_rate_limit ?rl0 user_id now = check_rate_limit rl user_id now"
    by (simp add: check_rate_limit_def decision_after_check [OF assms]
             split: prod.splits sum.splits)
  then show ?thesis
    by (simp only: check_fst)
qed

text \<open>
  C10. \<open>check_rate_limit\<close> appends nothing: the sequence of the checked caller before
  the call is the sequence after it with some entries in front, each older than 3600
  seconds, and the entry of every other caller is unchanged. A check therefore uses up
  nothing: a later check of the same caller returns what it would have returned without
  the earlier one. \<open>record_query\<close> appends exactly the current time to the sequence of
  its caller and changes no other entry.
\<close>

theorem check_never_appends:
  "(\<exists>removed. timestamps_of rl user_id
       = removed @ timestamps_of (fst (check_rate_limit rl user_id now)) user_id
       \<and> (\<forall>t\<in>set removed. now - t > 3600)) \<and>
   (other \<noteq> user_id \<longrightarrow>
      user_queries (fst (check_rate_limit rl user_id now)) other = user_queries rl other) \<and>
   (now \<le> later \<longrightarrow>
      check_rate_limit (fst (check_rate_limit rl user_id now)) user_id later
        = check_rate_limit rl user_id later) \<and>
   timestamps_of (record_query rl user_id now) user_id = timestamps_of rl user_id @ [now] \<and>
   (other \<noteq> user_id \<longrightarrow>
      user_queries (record_query rl user_id now) other = user_queries rl other)"
proof -
  have f: "fst (check_rate_limit rl user_id now) = fst (rate_limit_decision rl user_id now)"
    by (rule check_fst)
  have "\<exists>removed. timestamps_of rl user_id
       = removed @ timestamps_of (fst (rate_limit_decision rl user_id now)) user_id
       \<and> (\<forall>t\<in>set removed. now - t > 3600)"
  proof (cases "user_id \<in> admin_user_ids rl")
    case True
    then show ?thesis by (simp add: decision_admin)
  next
    case False
    have "timestamps_of rl user_id
            = takeWhile (\<lambda>t. now - t > 3600) (timestamps_of rl user_id)
              @ purge_old now (timestamps_of rl user_id)"
      by (rule purge_old_split)
    moreover have "\<forall>t\<in>set (takeWhile (\<lambda>t. now - t > 3600) (timestamps_of rl user_id)). now - t > 3600"
      by (auto dest: set_takeWhileD)
    ultimately show ?thesis
      unfolding decision_state [OF False] timestamps_of_update by auto
  qed
  moreover have "other \<noteq> user_id \<longrightarrow>
      user_queries (fst (rate_limit_decision rl user_id now)) other = user_queries rl other"
    by (cases "user_id \<in> admin_user_ids rl") (simp_all add: decision_admin decision_state)
  moreover have "now \<le> later \<longrightarrow>
      check_rate_limit (fst (check_rate_limit rl user_id now)) user_id later
        = check_rate_limit rl user_id later"
    by (simp add: check_after_check)
  ultimately show ?thesis
    by (simp add: f record_query_def)
qed

theorem check_never_appends_witness:
  "timestamps_of (record_query (record_query (init_rate_limiter 10 50 []) 7 0) 7 3000) 7
     = [0, 3000] \<and>
   timestamps_of
     (fst (check_rate_limit (record_query (record_query (init_rate_limiter 10 50 []) 7 0) 7 3000)
             7 3700)) 7
     = [3000] \<and>
   (8::int) \<noteq> 7 \<and>
   user_queries
     (fst (check_rate_limit (record_query (record_query (init_rate_limiter 10 50 []) 7 0) 7 3000)
             7 3700)) 8
     = user_queries (record_query (record_query (init_rate_limiter 10 50 []) 7 0) 7 3000) 8 \<and>
   (3700::real) \<le> 3800 \<and>
   check_rate_limit
     (fst (check_rate_limit (record_query (record_query (init_rate_limiter 10 50 []) 7 0) 7 3000)
             7 3700)) 7 3800
     = check_rate_limit (record_query (record_query (init_rate_limiter 10 50 []) 7 0) 7 3000)
         7 3800"
  using check_never_appends
    [of "record_query (record_query (init_rate_limiter 10 50 []) 7 0) 7 3000" 7 3700 8 3800]
  by (simp add: limiter_eval)

section \<open>Wait times\<close>

lemma next_where_exists: "\<exists>x\<in>set xs. P x \<Longrightarrow> \<exists>y. next_where P xs = Inr y"
  by (induction xs) auto

lemma filter_nonempty_next_where:
  assumes "filter P xs \<noteq> []"
  shows "\<exists>y. next_where P (rev xs) = Inr y"
proof -
  from assms have "\<exists>x\<in>set (rev xs). P x"
    by (auto simp: filter_empty_conv)
  then show ?thesis by (rule next_where_exists)
qed

lemma check_of_decision:
  "snd (rate_limit_decision rl user_id now) = Inr d
     \<Longrightarrow> snd (check_rate_limit rl user_id now) = Inr (render rl d)"
  by (cases "rate_limit_decision rl user_id now") (auto simp: check_rate_limit_def)

lemma decision_not_admin:
  "snd (rate_limit_decision rl user_id now) = Inr d \<Longrightarrow> d \<noteq> Admit
     \<Longrightarrow> user_id \<notin> admin_user_ids rl"
  by (auto simp: decision_admin)

lemma minute_wait_nonneg:
  assumes "snd (rate_limit_decision rl user_id now) = Inr (DenyMinute w qm qh)"
  shows "0 \<le> w"
proof -
  have na: "user_id \<notin> admin_user_ids rl"
    using decision_not_admin [OF assms] by simp
  from decision_minute [OF na assms] obtain t
    where n: "next_where (\<lambda>ts. ts \<ge> now - 60) (rev (purge_old now (timestamps_of rl user_id))) = Inr t"
      and w: "w = py_int (60 - (now - t))"
    by blast
  from next_where_sat [OF n] have "now - 60 \<le> t" by simp
  with w show ?thesis by (simp add: py_int_def)
qed

lemma hour_wait_nonneg:
  assumes "snd (rate_limit_decision rl user_id now) = Inr (DenyHour w qh)"
  shows "0 \<le> w"
proof -
  have na: "user_id \<notin> admin_user_ids rl"
    using decision_not_admin [OF assms] by simp
  from decision_hour [OF na assms] obtain t rest
    where p: "purge_old now (timestamps_of rl user_id) = t # rest"
      and w: "w = py_int (3600 - (now - t))"
    by blast
  from purge_old_hd [OF p] w show ?thesis by (simp add: py_int_def)
qed

lemma floor_minutes_mono:
  fixes now1 now2 t :: real
  assumes "now1 \<le> now2"
  shows "\<lfloor>3600 - (now2 - t)\<rfloor> div 60 \<le> \<lfloor>3600 - (now1 - t)\<rfloor> div (60::int)
         \<and> (now1 + 60 \<le> now2
              \<longrightarrow> \<lfloor>3600 - (now2 - t)\<rfloor> div 60 < \<lfloor>3600 - (now1 - t)\<rfloor> div (60::int))"
proof -
  have le: "\<lfloor>3600 - (now2 - t)\<rfloor> \<le> \<lfloor>3600 - (now1 - t)\<rfloor>"
    using assms by (intro floor_mono) simp
  have lt: "\<lfloor>3600 - (now2 - t)\<rfloor> div 60 < \<lfloor>3600 - (now1 - t)\<rfloor> div (60::int)"
    if "now1 + 60 \<le> now2"
  proof -
    from that have "3600 - (now2 - t) \<le> (3600 - (now1 - t)) - 60" by simp
    then have "\<lfloor>3600 - (now2 - t)\<rfloor> \<le> \<lfloor>(3600 - (now1 - t)) - 60\<rfloor>" by (rule floor_mono)
    also have "\<dots> = \<lfloor>3600 - (now1 - t)\<rfloor> - 60"
      using floor_diff_of_int [of "3600 - (now1 - t)" 60] by simp
    finally have "\<lfloor>3600 - (now2 - t)\<rfloor> div 60 \<le> (\<lfloor>3600 - (now1 - t)\<rfloor> - 60) div 60"
      by (rule zdiv_mono1) simp
    also have "\<dots> = \<lfloor>3600 - (now1 - t)\<rfloor> div 60 - 1" by simp
    finally show ?thesis by simp
  qed
  from le have "\<lfloor>3600 - (now2 - t)\<rfloor> div 60 \<le> \<lfloor>3600 - (now1 - t)\<rfloor> div (60::int)"
    by (rule zdiv_mono1) simp
  with lt show ?thesis by blast
qed

lemma hour_wait_monotone:
  assumes le: "now1 \<le> now2"
    and c1: "rate_limit_decision rl user_id now1 = (rl1, Inr (DenyHour w1 q1))"
    and c2: "rate_limit_decision rl1 user_id now2 = (rl2, Inr (DenyHour w2 q2))"
    and same: "timestamps_of rl2 user_id = timestamps_of rl1 user_id"
  shows "w2 div 60 \<le> w1 div 60 \<and> (now1 + 60 \<le> now2 \<longrightarrow> w2 div 60 < w1 div 60)"
proof -
  have na: "user_id \<notin> admin_user_ids rl"
    using c1 by (auto simp: decision_admin)
  define p1 where "p1 = purge_old now1 (timestamps_of rl user_id)"
  have rl1: "rl1 = rl\<lparr>user_queries := (user_queries rl)(user_id \<mapsto> p1)\<rparr>"
    using decision_state [OF na, of now1] c1 by (simp add: p1_def)
  then have na1: "user_id \<notin> admin_user_ids rl1" using na by simp
  have t1: "timestamps_of rl1 user_id = p1" by (simp add: rl1)
  have "rl2 = rl1\<lparr>user_queries := (user_queries rl1)(user_id \<mapsto> purge_old now2 p1)\<rparr>"
    using decision_state [OF na1, of now2] c2 t1 by simp
  then have t2: "timestamps_of rl2 user_id = purge_old now2 p1" by simp
  from decision_hour [OF na, of now1 w1 q1] c1 obtain ta ra
    where pa: "p1 = ta # ra" and wa: "w1 = py_int (3600 - (now1 - ta))"
    by (auto simp: p1_def)
  from decision_hour [OF na1, of now2 w2 q2] c2 t1 obtain tb rb
    where pb: "purge_old now2 p1 = tb # rb" and wb: "w2 = py_int (3600 - (now2 - tb))"
    by auto
  from same t1 t2 pa pb have eq: "tb = ta" by simp
  have "now2 - ta \<le> 3600" using purge_old_hd [OF pb] eq by simp
  moreover from this le have "now1 - ta \<le> 3600" by simp
  ultimately have "w1 = \<lfloor>3600 - (now1 - ta)\<rfloor>" and "w2 = \<lfloor>3600 - (now2 - ta)\<rfloor>"
    using wa wb eq by (simp_all add: py_int_nonneg)
  with floor_minutes_mono [OF le, of ta] show ?thesis by simp
qed

text \<open>
  C3, as amended. Every wait that a denial states is at least 0: the whole seconds in the
  message of a minute denial and the whole minutes in the message of an hour denial. For
  two successive checks of one caller at times \<open>now1 \<le> now2\<close>, with nothing recorded in
  between, that are both denied by the hour limit and the second of which purges no
  entry, the minutes stated by the second are at most those stated by the first, and
  fewer when at least 60 seconds have passed.
\<close>

theorem wait_time_bounds:
  "(snd (rate_limit_decision rl user_id now) = Inr (DenyMinute w qm qh)
      \<longrightarrow> 0 \<le> w
          \<and> snd (check_rate_limit rl user_id now)
              = Inr (False, minute_message (max_per_minute rl) w qm qh)) \<and>
   (snd (rate_limit_decision rl user_id now) = Inr (DenyHour w' qh')
      \<longrightarrow> 0 \<le> w' div 60
          \<and> snd (check_rate_limit rl user_id now)
              = Inr (False, hour_message (max_per_hour rl) (w' div 60) qh')) \<and>
   (now1 \<le> now2
      \<and> rate_limit_decision rl user_id now1 = (rl1, Inr (DenyHour w1 q1))
      \<and> rate_limit_decision rl1 user_id now2 = (rl2, Inr (DenyHour w2 q2))
      \<and> timestamps_of rl2 user_id = timestamps_of rl1 user_id
      \<longrightarrow> snd (check_rate_limit rl user_id now1)
              = Inr (False, hour_message (max_per_hour rl) (w1 div 60) q1)
          \<and> snd (check_rate_limit rl1 user_id now2)
              = Inr (False, hour_message (max_per_hour rl) (w2 div 60) q2)
          \<and> w2 div 60 \<le> w1 div 60
          \<and> (now1 + 60 \<le> now2 \<longrightarrow> w2 div 60 < w1 div 60))"
proof (intro conjI impI)
  assume a: "snd (rate_limit_decision rl user_id now) = Inr (DenyMinute w qm qh)"
  show "0 \<le> w" using a by (rule minute_wait_nonneg)
  show "snd (check_rate_limit rl user_id now)
          = Inr (False, minute_message (max_per_minute rl) w qm qh)"
    using check_of_decision [OF a] by simp
next
  assume a: "snd (rate_limit_decision rl user_id now) = Inr (DenyHour w' qh')"
  from hour_wait_nonneg [OF a] show "0 \<le> w' div 60"
    by (simp add: pos_imp_zdiv_nonneg_iff)
  show "snd (check_rate_limit rl user_id now)
          = Inr (False, hour_message (max_per_hour rl) (w' div 60) qh')"
    using check_of_decision [OF a] by simp
next
  assume a: "now1 \<le> now2
      \<and> rate_limit_decision rl user_id now1 = (rl1, Inr (DenyHour w1 q1))
      \<and> rate_limit_decision rl1 user_id now2 = (rl2, Inr (DenyHour w2 q2))
      \<and> timestamps_of rl2 user_id = timestamps_of rl1 user_id"
  then have c1: "snd (rate_limit_decision rl user_id now1) = Inr (DenyHour w1 q1)"
    and c2: "snd (rate_limit_decision rl1 user_id now2) = Inr (DenyHour w2 q2)"
    and r1: "rl1 = fst (rate_limit_decision rl user_id now1)"
    by simp_all
  show "snd (check_rate_limit rl user_id now1)
          = Inr (False, hour_message (max_per_hour rl) (w1 div 60) q1)"
    using check_of_decision [OF c1] by simp
  show "snd (check_rate_limit rl1 user_id now2)
          = Inr (False, hour_message (max_per_hour rl) (w2 div 60) q2)"
    using check_of_decision [OF c2] by (simp add: r1 check_limits)
  from a hour_wait_monotone [of now1 now2 rl user_id rl1 w1 q1 rl2 w2 q2]
  have m: "w2 div 60 \<le> w1 div 60 \<and> (now1 + 60 \<le> now2 \<longrightarrow> w2 div 60 < w1 div 60)"
    by blast
  from m show "w2 div 60 \<le> w1 div 60" by blast
  assume "now1 + 60 \<le> now2"
  with m show "w2 div 60 < w1 div 60" by blast
qed

lemma example_decisions:
  "rate_limit_decision (two_requests 2 50) 7 20 = (two_requests 2 50, Inr (DenyMinute 50 2 2))"
  "rate_limit_decision (recorded 100 2 [0, 100]) 7 200
     = (recorded 100 2 [0, 100], Inr (DenyHour 3400 2))"
  "rate_limit_decision (recorded 100 2 [0, 100]) 7 260
     = (recorded 100 2 [0, 100], Inr (DenyHour 3340 2))"
  by (simp_all add: two_requests_def recorded_def limiter_eval)

theorem wait_time_bounds_witness:
  "snd (rate_limit_decision (two_requests 2 50) 7 20) = Inr (DenyMinute 50 2 2) \<and>
   (0::int) \<le> 50 \<and>
   snd (check_rate_limit (two_requests 2 50) 7 20) = Inr (False, minute_message 2 50 2 2) \<and>
   (200::real) \<le> 260 \<and>
   rate_limit_decision (recorded 100 2 [0, 100]) 7 200
     = (recorded 100 2 [0, 100], Inr (DenyHour 3400 2)) \<and>
   rate_limit_decision (recorded 100 2 [0, 100]) 7 260
     = (recorded 100 2 [0, 100], Inr (DenyHour 3340 2)) \<and>
   snd (check_rate_limit (recorded 100 2 [0, 100]) 7 200) = Inr (False, hour_message 2 56 2) \<and>
   snd (check_rate_limit (recorded 100 2 [0, 100]) 7 260) = Inr (False, hour_message 2 55 2) \<and>
   (0::int) \<le> 56 \<and> (55::int) < 56"
proof -
  have l: "max_per_minute (two_requests 2 50) = 2" "max_per_hour (recorded 100 2 [0, 100]) = 2"
    by (simp_all add: two_requests_def recorded_def init_rate_limiter_def record_query_def)
  from wait_time_bounds [of "two_requests 2 50" 7 20 50 2 2]
  have m: "snd (check_rate_limit (two_requests 2 50) 7 20) = Inr (False, minute_message 2 50 2 2)"
    by (simp add: example_decisions l)
  from wait_time_bounds [of "recorded 100 2 [0, 100]" 7 200 _ _ _ 3400 2 200 260
      "recorded 100 2 [0, 100]" 3400 2 "recorded 100 2 [0, 100]" 3340 2]
  have h: "snd (check_rate_limit (recorded 100 2 [0, 100]) 7 200) = Inr (False, hour_message 2 56 2)"
    "snd (check_rate_limit (recorded 100 2 [0, 100]) 7 260) = Inr (False, hour_message 2 55 2)"
    by (simp_all add: example_decisions l)
  from m h show ?thesis by (simp add: example_decisions)
qed

text \<open>
  C3 as stated has the wait strictly decreasing from one denied check to the next. With
  a limit of 2 per hour and requests recorded at 0 and 100, the checks at 200 and at 201
  return the same pair, stating 56 minutes. With a third request recorded at 200, the
  check at 3600 states 0 minutes and the check at 3601, which purges the entry 0, states
  1 minute. With both limits at 2 and requests at 0 and 10, the check at 20 is a minute
  denial stating seconds, and the check at 65 is an hour denial stating 58 minutes.
\<close>

theorem wait_time_counterexample:
  "snd (check_rate_limit (recorded 100 2 [0, 100]) 7 200) = Inr (False, hour_message 2 56 2) \<and>
   snd (check_rate_limit (fst (check_rate_limit (recorded 100 2 [0, 100]) 7 200)) 7 201)
     = Inr (False, hour_message 2 56 2) \<and>
   snd (check_rate_limit (recorded 100 2 [0, 100, 200]) 7 3600)
     = Inr (False, hour_message 2 0 3) \<and>
   snd (check_rate_limit (fst (check_rate_limit (recorded 100 2 [0, 100, 200]) 7 3600)) 7 3601)
     = Inr (False, hour_message 2 1 2) \<and>
   snd (check_rate_limit (two_requests 2 2) 7 20) = Inr (False, minute_message 2 50 2 2) \<and>
   snd (check_rate_limit (fst (check_rate_limit (two_requests 2 2) 7 20)) 7 65)
     = Inr (False, hour_message 2 58 2)"
  by (simp add: two_requests_def recorded_def limiter_eval)

section \<open>Denials are results\<close>

lemma hour_branch:
  assumes "user_id \<notin> admin_user_ids rl"
    and "retained = purge_old now (timestamps_of rl user_id)"
    and "int (length (filter (\<lambda>ts. ts \<ge> now - 60) retained)) < max_per_minute rl"
    and "max_per_hour rl \<le> int (length retained)"
    and "retained \<noteq> []"
  shows "snd (rate_limit_decision rl user_id now)
           = Inr (DenyHour \<lfloor>3600 - (now - hd retained)\<rfloor> (int (length retained)))"
proof -
  from assms(5) obtain t rest where r: "retained = t # rest"
    by (cases retained) auto
  have p: "purge_old now (timestamps_of rl user_id) = t # rest"
    using assms(2) r by simp
  from purge_old_hd [OF p]
  have w: "py_int (3600 - (now - t)) = \<lfloor>3600 - (now - t)\<rfloor>"
    by (simp add: py_int_nonneg)
  have m: "\<not> max_per_minute rl \<le> int (length (filter (\<lambda>ts. ts \<ge> now - 60) (t # rest)))"
    using assms(3) r by simp
  have h: "max_per_hour rl \<le> int (length (t # rest))"
    using assms(4) r by simp
  show ?thesis
    unfolding rate_limit_decision_def is_admin_def Let_def p r
    using assms(1) m h w by simp
qed

text \<open>
  C4, as amended. With both limits at least 1, \<open>check_rate_limit\<close> raises nothing and
  returns a pair. For a caller who is not an admin: when the count of the last minute
  reaches \<open>max_per_minute\<close> the pair is \<open>(False, message)\<close> and the message states the
  limit, the computed \<open>wait_seconds\<close> (whole seconds, measured from a retained entry of
  the last minute) and both counts; otherwise, when the retained count reaches
  \<open>max_per_hour\<close>, the pair is \<open>(False, message)\<close> and the message states the limit, the
  whole minutes \<open>\<lfloor>3600 - (now - oldest)\<rfloor> div 60\<close> and the count; otherwise the pair is
  \<open>(True, "")\<close>. The wait is not a component of the pair.
\<close>

theorem denial_is_returned:
  assumes "1 \<le> max_per_minute rl" and "1 \<le> max_per_hour rl"
    and "retained = purge_old now (timestamps_of rl user_id)"
    and "queries_last_minute = int (length (filter (\<lambda>ts. ts \<ge> now - 60) retained))"
    and "queries_last_hour = int (length retained)"
  shows "(user_id \<in> admin_user_ids rl
            \<longrightarrow> snd (check_rate_limit rl user_id now) = Inr (True, '''')) \<and>
         (user_id \<notin> admin_user_ids rl \<and> max_per_minute rl \<le> queries_last_minute
            \<longrightarrow> (\<exists>t wait_seconds.
                   t \<in> set retained \<and> now - 60 \<le> t
                   \<and> wait_seconds = \<lfloor>60 - (now - t)\<rfloor> \<and> 0 \<le> wait_seconds
                   \<and> snd (rate_limit_decision rl user_id now)
                       = Inr (DenyMinute wait_seconds queries_last_minute queries_last_hour)
                   \<and> snd (check_rate_limit rl user_id now)
                       = Inr (False, minute_message (max_per_minute rl) wait_seconds
                                       queries_last_minute queries_last_hour))) \<and>
         (user_id \<notin> admin_user_ids rl \<and> queries_last_minute < max_per_minute rl
              \<and> max_per_hour rl \<le> queries_last_hour
            \<longrightarrow> snd (check_rate_limit rl user_id now)
                  = Inr (False, hour_message (max_per_hour rl)
                                  (\<lfloor>3600 - (now - hd retained)\<rfloor> div 60) queries_last_hour)) \<and>
         (user_id \<notin> admin_user_ids rl \<and> queries_last_minute < max_per_minute rl
              \<and> queries_last_hour < max_per_hour rl
            \<longrightarrow> snd (check_rate_limit rl user_id now) = Inr (True, ''''))"
proof (intro conjI impI)
  assume "user_id \<in> admin_user_ids rl"
  then show "snd (check_rate_limit rl user_id now) = Inr (True, '''')"
    by (simp add: check_rate_limit_def decision_admin)
next
  assume a: "user_id \<notin> admin_user_ids rl \<and> max_per_minute rl \<le> queries_last_minute"
  with assms(1,4) have "filter (\<lambda>ts. ts \<ge> now - 60) retained \<noteq> []" by auto
  then obtain t where n: "next_where (\<lambda>ts. ts \<ge> now - 60) (rev retained) = Inr t"
    using filter_nonempty_next_where by blast
  from next_where_sat [OF n] have t: "t \<in> set retained" "now - 60 \<le> t" by simp_all
  then have w: "py_int (60 - (now - t)) = \<lfloor>60 - (now - t)\<rfloor>" "0 \<le> \<lfloor>60 - (now - t)\<rfloor>"
    by (simp_all add: py_int_nonneg)
  have d: "snd (rate_limit_decision rl user_id now)
             = Inr (DenyMinute \<lfloor>60 - (now - t)\<rfloor> queries_last_minute queries_last_hour)"
    using a n w(1) assms(3,4,5)
    by (simp add: rate_limit_decision_def is_admin_def Let_def)
  from check_of_decision [OF d]
  have "snd (check_rate_limit rl user_id now)
          = Inr (False, minute_message (max_per_minute rl) \<lfloor>60 - (now - t)\<rfloor>
                          queries_last_minute queries_last_hour)"
    by simp
  with t w(2) d
  show "\<exists>t wait_seconds.
          t \<in> set retained \<and> now - 60 \<le> t
          \<and> wait_seconds = \<lfloor>60 - (now - t)\<rfloor> \<and> 0 \<le> wait_seconds
          \<and> snd (rate_limit_decision rl user_id now)
              = Inr (DenyMinute wait_seconds queries_last_minute queries_last_hour)
          \<and> snd (check_rate_limit rl user_id now)
              = Inr (False, minute_message (max_per_minute rl) wait_seconds
                              queries_last_minute queries_last_hour)"
    by blast
next
  assume a: "user_id \<notin> admin_user_ids rl \<and> queries_last_minute < max_per_minute rl
              \<and> max_per_hour rl \<le> queries_last_hour"
  with assms(2,5) have ne: "retained \<noteq> []" by auto
  have m: "int (length (filter (\<lambda>ts. ts \<ge> now - 60) retained)) < max_per_minute rl"
    using a assms(4) by simp
  have h: "max_per_hour rl \<le> int (length retained)"
    using a assms(5) by simp
  have d: "snd (rate_limit_decision rl user_id now)
             = Inr (DenyHour \<lfloor>3600 - (now - hd retained)\<rfloor> (int (length retained)))"
    using a assms(3) m h ne by (intro hour_branch) simp_all
  from check_of_decision [OF d]
  show "snd (check_rate_limit rl user_id now)
          = Inr (False, hour_message (max_per_hour rl)
                          (\<lfloor>3600 - (now - hd retained)\<rfloor> div 60) queries_last_hour)"
    by (simp add: assms(5))
next
  assume a: "user_id \<notin> admin_user_ids rl \<and> queries_last_minute < max_per_minute rl
              \<and> queries_last_hour < max_per_hour rl"
  then have "snd (rate_limit_decision rl user_id now) = Inr Admit"
    using assms(3,4,5) by (simp add: rate_limit_decision_def is_admin_def Let_def)
  from check_of_decision [OF this]
  show "snd (check_rate_limit rl user_id now) = Inr (True, '''')" by simp
qed

lemma example_retained:
  "purge_old 20 (timestamps_of (two_requests a b) 7) = [0, 10]"
  "purge_old 200 (timestamps_of (recorded a b [0, 100]) 7) = [0, 100]"
  by (simp_all add: two_requests_def recorded_def init_rate_limiter_def record_query_def
        timestamps_of_def)

lemma example_limits:
  "max_per_minute (two_requests a b) = a" "max_per_hour (two_requests a b) = b"
  "admin_user_ids (two_requests a b) = {}"
  "max_per_minute (recorded a b [s, t]) = a" "max_per_hour (recorded a b [s, t]) = b"
  "admin_user_ids (recorded a b [s, t]) = {}"
  by (simp_all add: two_requests_def recorded_def init_rate_limiter_def record_query_def)

theorem denial_is_returned_witness:
  "snd (check_rate_limit (init_rate_limiter 1 1 [7]) 7 0) = Inr (True, '''') \<and>
   snd (check_rate_limit (two_requests 2 50) 7 20) = Inr (False, minute_message 2 50 2 2) \<and>
   snd (check_rate_limit (recorded 100 2 [0, 100]) 7 200) = Inr (False, hour_message 2 56 2) \<and>
   snd (check_rate_limit (two_requests 10 50) 7 20) = Inr (True, '''')"
proof -
  have one: "(1::int) \<le> 1" "(1::int) \<le> 2" "(1::int) \<le> 10" "(1::int) \<le> 50" "(1::int) \<le> 100"
    by simp_all
  have r0: "[] = purge_old 0 (timestamps_of (init_rate_limiter 1 1 [7]) 7)"
    by (simp add: init_rate_limiter_def timestamps_of_def)
  have r1: "[0, 10] = purge_old 20 (timestamps_of (two_requests a b) 7)" for a b
    by (simp add: example_retained)
  have r2: "[0, 100] = purge_old 200 (timestamps_of (recorded 100 2 [0, 100]) 7)"
    by (simp add: example_retained)
  have q0: "(0::int) = int (length (filter (\<lambda>ts. ts \<ge> 0 - 60) ([]::real list)))"
    "(0::int) = int (length ([]::real list))"
    by simp_all
  have q1: "(2::int) = int (length (filter (\<lambda>ts. ts \<ge> 20 - 60) [0, 10::real]))"
    "(2::int) = int (length [0, 10::real])"
    by simp_all
  have q2: "(0::int) = int (length (filter (\<lambda>ts. ts \<ge> 200 - 60) [0, 100::real]))"
    "(2::int) = int (length [0, 100::real])"
    by simp_all
  note admin = denial_is_returned [of "init_rate_limiter 1 1 [7]" "[]" 0 7 0 0, OF _ _ r0 q0]
  note minute = denial_is_returned [of "two_requests 2 50" "[0, 10]" 20 7 2 2, OF _ _ r1 q1]
  note hour = denial_is_returned [of "recorded 100 2 [0, 100]" "[0, 100]" 200 7 0 2, OF _ _ r2 q2]
  note admit = denial_is_returned [of "two_requests 10 50" "[0, 10]" 20 7 2 2, OF _ _ r1 q1]
  have a: "snd (check_rate_limit (init_rate_limiter 1 1 [7]) 7 0) = Inr (True, '''')"
    using admin by (simp add: init_rate_limiter_def)
  have "\<exists>wait_seconds.
          snd (rate_limit_decision (two_requests 2 50) 7 20) = Inr (DenyMinute wait_seconds 2 2)
          \<and> snd (check_rate_limit (two_requests 2 50) 7 20)
              = Inr (False, minute_message 2 wait_seconds 2 2)"
    using minute by (auto simp: example_limits)
  then have b: "snd (check_rate_limit (two_requests 2 50) 7 20)
                  = Inr (False, minute_message 2 50 2 2)"
    by (auto simp: example_decisions)
  have c: "snd (check_rate_limit (recorded 100 2 [0, 100]) 7 200)
             = Inr (False, hour_message 2 56 2)"
    using hour by (simp add: example_limits)
  have d: "snd (check_rate_limit (two_requests 10 50) 7 20) = Inr (True, '''')"
    using admit by (simp add: example_limits)
  from a b c d show ?thesis by simp
qed

text \<open>
  C4 as stated has every denial returned as \<open>(false, waitSeconds, message)\<close> and never
  raised. With \<open>max_per_minute = 0\<close> and no history the minute branch is entered and
  \<open>next\<close> raises \<open>StopIteration\<close>; and the denial of the hour example is the pair below,
  which states 56 minutes and has no component for the 3400 seconds.
\<close>

theorem denial_result_counterexample:
  "snd (check_rate_limit (init_rate_limiter 0 50 []) 7 0) = Inl StopIteration \<and>
   snd (check_rate_limit (record_query (record_query (init_rate_limiter 100 2 []) 7 0) 7 100) 7 200)
     = Inr (False,
         stopwatch @ '' Rate limit: 2 queries/hour exceeded.'' @ newline
         @ ''Please wait 56 minutes.'' @ newline @ newline
         @ ''Your usage: 2 queries in last hour.'')"
  by (simp add: limiter_eval message_eval)

section \<open>Properties of the resolver\<close>

lemmas resolver_eval =
  resolve_fqdn_def resolve_fqdn_try_def setdefaulttimeout_def info_address_def
  example_service_def example_hosts_def

lemma resolve_fqdn_total: "\<exists>found. resolve_fqdn getaddrinfo host seconds = Inr found"
  by (simp add: resolve_fqdn_def split: sum.splits py_exception.splits)

lemma resolve_fqdn_try_lookup_error:
  "getaddrinfo host = Inl e \<Longrightarrow> \<exists>e'. resolve_fqdn_try getaddrinfo host seconds = Inl e'"
  by (simp add: resolve_fqdn_try_def setdefaulttimeout_def)

text \<open>
  C5. For every name service, host name and timeout, \<open>resolve_fqdn\<close> returns a list
  and raises nothing; when the lookup raises, whatever the exception (a timeout, a
  \<open>gaierror\<close>, any other), the list is empty.
\<close>

theorem resolve_never_raises:
  "(\<exists>found. resolve_fqdn getaddrinfo host seconds = Inr found) \<and>
   (getaddrinfo host = Inl e \<longrightarrow> resolve_fqdn getaddrinfo host seconds = Inr [])"
proof
  show "\<exists>found. resolve_fqdn getaddrinfo host seconds = Inr found"
    by (rule resolve_fqdn_total)
next
  show "getaddrinfo host = Inl e \<longrightarrow> resolve_fqdn getaddrinfo host seconds = Inr []"
  proof
    assume "getaddrinfo host = Inl e"
    then obtain e' where "resolve_fqdn_try getaddrinfo host seconds = Inl e'"
      using resolve_fqdn_try_lookup_error by blast
    then show "resolve_fqdn getaddrinfo host seconds = Inr []"
      by (cases e') (simp_all add: resolve_fqdn_def)
  qed
qed

theorem resolve_never_raises_witness:
  "example_service ''t.example'' = Inl SocketTimeout \<and>
   resolve_fqdn example_service ''t.example'' 5 = Inr [] \<and>
   example_service ''nx.example'' = Inl GaiError \<and>
   resolve_fqdn example_service ''nx.example'' 5 = Inr [] \<and>
   example_service ''x.example'' = Inl (OtherException ''unreachable'') \<and>
   resolve_fqdn example_service ''x.example'' 5 = Inr []"
  using resolve_never_raises [of example_service "''t.example''" 5 SocketTimeout]
    resolve_never_raises [of example_service "''nx.example''" 5 GaiError]
    resolve_never_raises [of example_service "''x.example''" 5 "OtherException ''unreachable''"]
  by (simp add: example_service_def)

text \<open>
  C6. When the lookup returns a list of entries (and the timeout is accepted, that is not
  negative), \<open>resolve_fqdn\<close> returns the addresses of the entries without duplicates,
  sorted as strings: the result has the same set of addresses, is distinct and is sorted.
\<close>

theorem resolve_dedup_sort:
  assumes "getaddrinfo host = Inr addr_info" and "0 \<le> seconds"
  shows "\<exists>found. resolve_fqdn getaddrinfo host seconds = Inr found
           \<and> found = sort (remdups (map info_address addr_info))
           \<and> set found = set (map info_address addr_info)
           \<and> distinct found \<and> sorted found"
  using assms
  by (simp add: resolve_fqdn_def resolve_fqdn_try_def setdefaulttimeout_def)

theorem resolve_dedup_sort_witness:
  "example_service ''a.example''
     = Inr [(AF_INET, 1, 6, [], SockAddr4 ''10.0.0.1'' 0),
            (AF_INET, 1, 6, [], SockAddr4 ''10.0.0.1'' 0),
            (AF_INET6, 1, 6, [], SockAddr6 ''::1'' 0 0 0)] \<and>
   (0::int) \<le> 5 \<and>
   resolve_fqdn example_service ''a.example'' 5 = Inr [''10.0.0.1'', ''::1'']"
proof -
  let ?infos = "[(AF_INET, 1, 6, [], SockAddr4 ''10.0.0.1'' 0),
                 (AF_INET, 1, 6, [], SockAddr4 ''10.0.0.1'' 0),
                 (AF_INET6, 1, 6, [], SockAddr6 ''::1'' 0 0 0)]"
  have a: "example_service ''a.example'' = Inr ?infos"
    by (simp add: example_service_def)
  have b: "(0::int) \<le> 5" by simp
  from resolve_dedup_sort [of example_service "''a.example''" ?infos 5, OF a b]
  have "resolve_fqdn example_service ''a.example'' 5 = Inr [''10.0.0.1'', ''::1'']"
    by (simp add: info_address_def)
  with a b show ?thesis by simp
qed

section \<open>Properties of the fan-out\<close>

lemma dom_collect: "dom (collect results p) = insert (snd p) (dom results)"
  by (cases p) (auto simp: collect_def split: sum.splits)

lemma dom_foldl_collect: "dom (foldl collect results ps) = dom results \<union> snd ` set ps"
  by (induction ps arbitrary: results) (auto simp: dom_collect)

lemma collect_value:
  "collect results p h =
     (if h = snd p then Some (case fst p of Inr found \<Rightarrow> found | Inl _ \<Rightarrow> []) else results h)"
  by (cases p) (auto simp: collect_def split: sum.splits)

lemma foldl_collect_value:
  assumes "\<forall>p\<in>set ps. fst p = f (snd p)" and "h \<in> snd ` set ps"
  shows "foldl collect results ps h = Some (case f h of Inr found \<Rightarrow> found | Inl _ \<Rightarrow> [])"
  using assms
proof (induction ps arbitrary: results rule: rev_induct)
  case Nil
  then show ?case by simp
next
  case (snoc p ps)
  show ?case
  proof (cases "h = snd p")
    case True
    with snoc.prems(1) show ?thesis by (simp add: collect_value)
  next
    case False
    with snoc.prems have "h \<in> snd ` set ps" by auto
    with snoc.IH [of results] snoc.prems(1) False show ?thesis
      by (simp add: collect_value)
  qed
qed

lemma completed_futures:
  assumes "completion_order (length xs) completion"
  shows "set (map (\<lambda>i. xs ! i) completion) = set xs"
proof -
  from assms have "set completion = {0..<length xs}"
    unfolding completion_order_def by (metis mset_eq_setD set_upt)
  then have "(\<lambda>i. xs ! i) ` set completion = set xs"
    by (auto simp: set_conv_nth)
  then show ?thesis by simp
qed

text \<open>
  C7. With at least one worker, and whatever the order in which the futures complete,
  \<open>resolve_multiple_fqdns\<close> returns a dictionary whose keys are exactly the given host
  names; each is mapped to the list that \<open>resolve_fqdn\<close> returns for it, empty when its
  lookup failed.
\<close>

theorem resolve_all_keys:
  assumes "1 \<le> max_workers" and "completion_order (length hosts) completion"
  shows "\<exists>results. resolve_multiple_fqdns getaddrinfo completion hosts max_workers seconds = Inr results
           \<and> dom results = set hosts
           \<and> (\<forall>h\<in>set hosts. \<exists>found. results h = Some found
                  \<and> resolve_fqdn getaddrinfo h seconds = Inr found)"
proof -
  define futures where "futures = map (\<lambda>host. (resolve_fqdn getaddrinfo host seconds, host)) hosts"
  define completed where "completed = map (\<lambda>i. futures ! i) completion"
  define results where "results = foldl collect Map.empty completed"
  have r: "resolve_multiple_fqdns getaddrinfo completion hosts max_workers seconds = Inr results"
    using assms(1)
    by (simp add: resolve_multiple_fqdns_def results_def completed_def futures_def Let_def)
  have "length futures = length hosts" by (simp add: futures_def)
  with assms(2) have c: "set completed = set futures"
    unfolding completed_def by (simp only: completed_futures)
  have s: "snd ` set futures = set hosts" by (force simp: futures_def)
  have d: "dom results = set hosts"
    by (simp add: results_def dom_foldl_collect c s)
  have v: "\<exists>found. results h = Some found \<and> resolve_fqdn getaddrinfo h seconds = Inr found"
    if "h \<in> set hosts" for h
  proof -
    have "\<forall>p\<in>set completed. fst p = resolve_fqdn getaddrinfo (snd p) seconds"
      by (auto simp: c futures_def)
    moreover have "h \<in> snd ` set completed" using that c s by simp
    ultimately have "results h
        = Some (case resolve_fqdn getaddrinfo h seconds of Inr found \<Rightarrow> found | Inl _ \<Rightarrow> [])"
      unfolding results_def by (rule foldl_collect_value)
    moreover obtain found where "resolve_fqdn getaddrinfo h seconds = Inr found"
      using resolve_fqdn_total by blast
    ultimately show ?thesis by simp
  qed
  from r d v show ?thesis by blast
qed

theorem resolve_all_keys_witness:
  "(1::int) \<le> 10 \<and> completion_order (length example_hosts) [1, 0, 2] \<and>
   (\<exists>results. resolve_multiple_fqdns example_service [1, 0, 2] example_hosts 10 5 = Inr results
      \<and> dom results = {''t.example'', ''a.example'', ''nx.example''}
      \<and> results ''a.example'' = Some [''10.0.0.1'', ''::1'']
      \<and> results ''nx.example'' = Some [])"
proof -
  have a: "(1::int) \<le> 10" by simp
  have b: "completion_order (length example_hosts) [1, 0, 2]"
    by (simp add: completion_order_def example_hosts_def upt_rec)
  from resolve_all_keys [OF a b, of example_service 5] obtain results
    where r: "resolve_multiple_fqdns example_service [1, 0, 2] example_hosts 10 5 = Inr results"
      and d: "dom results = set example_hosts"
      and v: "\<forall>h\<in>set example_hosts. \<exists>found. results h = Some found
                  \<and> resolve_fqdn example_service h 5 = Inr found"
    by blast
  from v have "results ''a.example'' = Some [''10.0.0.1'', ''::1'']"
    and "results ''nx.example'' = Some []"
    by (simp_all add: resolver_eval)
  with a b r d show ?thesis by (simp add: example_hosts_def)
qed

section \<open>Properties of the reports\<close>

lemma fqdn_active_entries:
  "map fqdn (active_entries results hosts) = filter (\<lambda>h. get_ips results h \<noteq> []) hosts"
  by (induction hosts) (simp_all add: Let_def)

lemma fqdn_all_entries: "map fqdn (all_entries results hosts) = hosts"
  by (simp add: all_entries_def Let_def comp_def)

lemma length_active_entries: "length (active_entries results hosts) \<le> length hosts"
  using length_filter_le [of "\<lambda>h. get_ips results h \<noteq> []" hosts]
  by (metis fqdn_active_entries length_map)

lemma resolved_active_entries: "\<forall>e\<in>set (active_entries results hosts). resolved e \<and> ips e \<noteq> []"
  by (induction hosts) (simp_all add: Let_def)

text \<open>
  C8. With at least one worker, both report functions return a report whose
  \<open>total_fqdns\<close> is the number of candidate host names (the size of the set when the
  list has no duplicates) and whose list of entries is at most that long and sorted by
  host name.
\<close>

theorem report_totals:
  assumes "1 \<le> max_workers"
  shows "(\<exists>r. get_operator_infrastructure getaddrinfo completion start_time end_time
                 operator_name hosts pairs max_workers seconds = Inr r
             \<and> total_fqdns r = int (length hosts)
             \<and> (distinct hosts \<longrightarrow> total_fqdns r = int (card (set hosts)))
             \<and> length (active_fqdns r) \<le> length hosts
             \<and> sorted (map fqdn (active_fqdns r)))
       \<and> (\<exists>r. get_operator_infrastructure_with_all_fqdns getaddrinfo completion start_time end_time
                 operator_name hosts pairs max_workers seconds = Inr r
             \<and> total_fqdns r = int (length hosts)
             \<and> (distinct hosts \<longrightarrow> total_fqdns r = int (card (set hosts)))
             \<and> length (all_fqdns r) \<le> length hosts
             \<and> sorted (map fqdn (all_fqdns r)))"
proof -
  from assms obtain results
    where r: "resolve_multiple_fqdns getaddrinfo completion hosts max_workers seconds = Inr results"
    by (auto simp: resolve_multiple_fqdns_def Let_def)
  have a: "sorted (map fqdn (active_entries results (sort hosts)))"
    by (simp add: fqdn_active_entries sorted_wrt_filter)
  have l: "length (active_entries results (sort hosts)) \<le> length hosts"
    using length_active_entries [of results "sort hosts"] by simp
  have b: "sorted (map fqdn (all_entries results (sort hosts)))"
    by (simp add: fqdn_all_entries)
  have m: "length (all_entries results (sort hosts)) = length hosts"
    by (simp add: all_entries_def)
  show ?thesis
    using r a l b m
    by (simp add: get_operator_infrastructure_def get_operator_infrastructure_with_all_fqdns_def
                  Let_def distinct_card)
qed

theorem report_totals_witness:
  "(1::int) \<le> 10 \<and>
   (\<exists>r. get_operator_infrastructure example_service [1, 0, 2] 0 (1 / 2)
            ''Op'' example_hosts [(1, 240)] 10 5 = Inr r
        \<and> total_fqdns r = 3 \<and> length (active_fqdns r) \<le> 3 \<and> sorted (map fqdn (active_fqdns r))) \<and>
   (\<exists>r. get_operator_infrastructure_with_all_fqdns example_service [1, 0, 2] 0 (1 / 2)
            ''Op'' example_hosts [(1, 240)] 10 5 = Inr r
        \<and> total_fqdns r = 3 \<and> length (all_fqdns r) \<le> 3 \<and> sorted (map fqdn (all_fqdns r)))"
proof -
  have a: "(1::int) \<le> 10" by simp
  have l: "length example_hosts = 3" by (simp add: example_hosts_def)
  from report_totals [OF a, of example_service "[1, 0, 2]" 0 "1 / 2" "''Op''" example_hosts
      "[(1, 240)]" 5]
  show ?thesis unfolding l by auto
qed

end
